theory Spec2Isabelle
  imports Main "HOL-Library.AList" "HOL-Library.Word"
begin

section \<open>The TCP server of backend/tcpio/tcp_server.py\<close>

text \<open>
  A shallow embedding of class \<open>TCPServer\<close>. Sockets are handles (natural numbers);
  what the operating system and the peers do is given to each operation as the outcome of
  its socket calls, so every \<open>recv\<close>, \<open>sendall\<close>, \<open>bind\<close> and \<open>accept\<close> of
  the source is a case distinction of the model. The two dictionaries of the object are
  association lists in insertion order, as Python's \<open>dict\<close> keeps them:
  \<open>AList.update\<close> overwrites a present key in place and appends a new one,
  \<open>AList.delete\<close> removes a key, \<open>map_of\<close> looks one up.
\<close>

subsection \<open>Values\<close>

type_synonym sock = nat
type_synonym byte = "8 word"
type_synonym payload = "(string \<times> string) list"

text \<open>
  The Python values used as dictionary keys and as the receiver of a built message: the
  accept loop keys \<open>clients\<close> by the address tuple \<open>(host, port)\<close>, callers of
  \<open>send_message\<close> pass a device name, and \<open>message.get("sender")\<close> is \<open>None\<close>
  when the field is missing.
\<close>

datatype pyval = NoneVal | Str string | Addr string nat

text \<open>
  A value of \<open>clients\<close>. \<open>start\<close> stores the accepted socket object itself;
  \<open>send_message\<close> reads \<open>self.clients[client_id]["socket"]\<close>, which only an
  entry that is itself a dictionary with a \<open>"socket"\<close> key supports.
\<close>

datatype client_entry = SocketObj sock | SocketDict sock

datatype exn =
    SocketTimeout
  | ConnectionResetError
  | ConnectionAbortedError
  | OSError string
  | TypeError
  | AttributeError
  | OtherError

datatype recv_result = Data "byte list" | RecvRaises exn
datatype send_result = Sent | SendRaises exn

text \<open>\<open>sock.recv(n)\<close> returns at most \<open>n\<close> bytes.\<close>

definition recv :: "nat \<Rightarrow> recv_result \<Rightarrow> recv_result" where
  "recv n r = (case r of Data bs \<Rightarrow> Data (take n bs) | RecvRaises e \<Rightarrow> RecvRaises e)"

text \<open>\<open>s.startswith(p)\<close> and \<open>sub in s\<close> on strings.\<close>

definition startswith :: "string \<Rightarrow> string \<Rightarrow> bool" where
  "startswith s p = (take (length p) s = p)"

fun contains :: "string \<Rightarrow> string \<Rightarrow> bool" where
  "contains sub [] = (sub = [])"
| "contains sub (c # cs) = (startswith (c # cs) sub \<or> contains sub cs)"

text \<open>The decimal digits of a port number, as the f-string \<open>f"TEMP_{addr[1]}"\<close> prints it.\<close>

fun str_nat :: "nat \<Rightarrow> string" where
  "str_nat n =
     (if n < 10 then [''0123456789'' ! n]
      else str_nat (n div 10) @ [''0123456789'' ! (n mod 10)])"

declare str_nat.simps [simp del]

text \<open>Python truthiness of an optional string: \<open>None\<close> and \<open>""\<close> are false.\<close>

fun truthy :: "string option \<Rightarrow> bool" where
  "truthy None = False"
| "truthy (Some s) = (s \<noteq> [])"

definition py_str :: "string option \<Rightarrow> pyval" where
  "py_str v = (case v of None \<Rightarrow> NoneVal | Some s \<Rightarrow> Str s)"

subsection \<open>The codec boundary\<close>

text \<open>
  \<open>TCPProtocol\<close> (backend/tcpio/protocol.py) is imported by the server and is not part
  of it; it is a parameter of the model. A decoded message is the dictionary
  \<open>parse_message\<close> returns, of which the server reads the keys \<open>"type"\<close>,
  \<open>"sender"\<close> and \<open>"cmd"\<close>; \<open>None\<close> stands for a missing key. Both functions may
  raise, which is the result \<open>None\<close>.
\<close>

record message =
  mtype :: "string option"
  sender :: "string option"
  cmd :: "string option"
  payload :: payload

record codec =
  parse_message :: "byte list \<Rightarrow> message option"
  build_message :: "string \<Rightarrow> pyval \<Rightarrow> string \<Rightarrow> payload \<Rightarrow> byte list option"

subsection \<open>The server object and the world it acts on\<close>

text \<open>
  \<open>clients\<close>, \<open>truck_sockets\<close>, \<open>running\<close> and \<open>server_sock\<close> are the attributes
  of the object (\<open>server_sock = None\<close>: the attribute does not exist yet, which
  \<open>hasattr\<close> tests). The other fields record the effects of the calls: the sockets
  that were closed, the completed \<open>sendall\<close> calls, the messages handed to
  \<open>app.handle_message\<close>, the \<open>time.sleep\<close> calls, the \<open>bind\<close> and \<open>listen\<close> calls
  and the handler threads that were started.
\<close>

record server =
  clients :: "(pyval \<times> client_entry) list"
  truck_sockets :: "(string \<times> sock) list"
  running :: bool
  server_sock :: "sock option"
  closed :: "sock list"
  wire :: "(sock \<times> byte list) list"
  handled :: "message list"
  slept :: "nat list"
  bound :: "sock list"
  listening :: "sock list"
  spawned :: "(sock \<times> string \<times> nat) list"

text \<open>\<open>__init__\<close>: both dictionaries empty, not running, no listening socket.\<close>

definition init_server :: server where
  "init_server = \<lparr>clients = [], truck_sockets = [], running = False, server_sock = None,
     closed = [], wire = [], handled = [], slept = [], bound = [], listening = [],
     spawned = []\<rparr>"

subsection \<open>handle_client\<close>

text \<open>
  What the environment does during one pass through the \<open>while True\<close> body: the two
  readings of the clock, and the outcome of each socket call the pass can make. A pass
  reads only the outcomes of the calls it reaches.
\<close>

record io =
  clock :: int
  send_probe :: send_result
  recv_header :: recv_result
  recv_payload :: recv_result
  send_ack :: send_result
  send_heartbeat :: send_result
  clock_after :: int

datatype loop_ctl = Continue | Break

text \<open>
  Lines 229-236: the registration of the sender. The temporary key is deleted only inside
  \<open>if truck_id not in self.truck_sockets\<close>; the assignment that follows is made either way.
\<close>

definition register_truck ::
  "sock \<Rightarrow> string \<Rightarrow> string \<Rightarrow> (string \<times> sock) list \<Rightarrow> (string \<times> sock) list" where
  "register_truck client_sock temp_truck_id truck_id ts =
     AList.update truck_id client_sock
       (if truck_id \<notin> set (map fst ts)
        then (if temp_truck_id \<in> set (map fst ts) then AList.delete temp_truck_id ts else ts)
        else ts)"

text \<open>
  Lines 218-268: a complete frame is parsed and dispatched. Every path ends the pass with
  the loop still running: the two \<open>continue\<close> of the parse step, the \<open>continue\<close> after
  the \<open>HELLO\<close> reply (whose \<open>try\<close> swallows every exception of \<open>build_message\<close> and
  \<open>sendall\<close>), and the end of the body after \<open>app.handle_message\<close> (whose exceptions are
  swallowed too). A call of \<open>handle_message\<close> is recorded whether or not it raises.
\<close>

definition dispatch ::
  "codec \<Rightarrow> sock \<Rightarrow> string \<Rightarrow> io \<Rightarrow> byte list \<Rightarrow> server \<Rightarrow> loop_ctl \<times> server" where
  "dispatch codec client_sock temp_truck_id env raw_data st =
     (case parse_message codec raw_data of
        None \<Rightarrow> (Continue, st)
      | Some message \<Rightarrow>
          if mtype message = Some ''INVALID'' then (Continue, st)
          else
            let truck_id = sender message;
                st1 = (case truck_id of
                         None \<Rightarrow> st
                       | Some tid \<Rightarrow>
                           if tid \<noteq> []
                           then st\<lparr>truck_sockets :=
                                  register_truck client_sock temp_truck_id tid (truck_sockets st)\<rparr>
                           else st)
            in if cmd message = Some ''HELLO'' then
                 (case build_message codec ''SERVER'' (py_str truck_id) ''HEARTBEAT_ACK'' [] of
                    None \<Rightarrow> (Continue, st1)
                  | Some response \<Rightarrow>
                      (case send_ack env of
                         Sent \<Rightarrow> (Continue, st1\<lparr>wire := wire st1 @ [(client_sock, response)]\<rparr>)
                       | SendRaises e \<Rightarrow> (Continue, st1)))
               else (Continue, st1\<lparr>handled := handled st1 @ [message]\<rparr>))"

text \<open>
  Lines 176-268, the body of the inner \<open>try\<close>. The result is the exception that leaves
  the body (\<open>Inl\<close>) or how the pass ends (\<open>Inr\<close>), with \<open>last_activity_time\<close> and the
  server as they are at that point. Time is counted in whole seconds.
\<close>

definition read_frame ::
  "codec \<Rightarrow> sock \<Rightarrow> string \<Rightarrow> io \<Rightarrow> int \<Rightarrow> server \<Rightarrow> (exn + loop_ctl) \<times> int \<times> server" where
  "read_frame codec client_sock temp_truck_id env last_activity_time st =
     (let current_time = clock env;
          silent = (current_time - last_activity_time > 300)
      in if silent \<and> send_probe env \<noteq> Sent then (Inr Break, last_activity_time, st)
         else
           let last1 = (if silent then current_time else last_activity_time) in
           (case recv 4 (recv_header env) of
              RecvRaises e \<Rightarrow> (Inl e, last1, st)
            | Data header_data \<Rightarrow>
                if header_data = [] then (Inr Break, last1, st)
                else if length header_data < 4 then (Inr Continue, last1, st)
                else
                  let payload_len = unat (header_data ! 3) in
                  if payload_len > 0 then
                    (case recv payload_len (recv_payload env) of
                       RecvRaises e \<Rightarrow> (Inl e, current_time, st)
                     | Data payload_data \<Rightarrow>
                         if length payload_data < payload_len
                         then (Inr Continue, current_time, st)
                         else
                           (case dispatch codec client_sock temp_truck_id env
                                   (header_data @ payload_data) st of
                              (c, st') \<Rightarrow> (Inr c, current_time, st')))
                  else
                    (case dispatch codec client_sock temp_truck_id env (header_data @ []) st of
                       (c, st') \<Rightarrow> (Inr c, current_time, st'))))"

text \<open>
  Lines 281-285: the first key of \<open>truck_sockets\<close>, in dictionary order, that maps to
  this socket and does not start with \<open>TEMP_\<close>.
\<close>

definition registered_truck_id :: "sock \<Rightarrow> (string \<times> sock) list \<Rightarrow> string option" where
  "registered_truck_id client_sock ts =
     map_option fst (find (\<lambda>(tid, sock). sock = client_sock \<and> \<not> startswith tid ''TEMP_'') ts)"

text \<open>
  Lines 276-304, the handler of \<open>socket.timeout\<close>. Its bare \<open>except\<close> turns every
  failure of \<open>build_message\<close> or \<open>sendall\<close> into \<open>break\<close>.
\<close>

definition on_timeout ::
  "codec \<Rightarrow> sock \<Rightarrow> io \<Rightarrow> int \<Rightarrow> server \<Rightarrow> loop_ctl \<times> int \<times> server" where
  "on_timeout codec client_sock env last_activity_time st =
     (let registered = registered_truck_id client_sock (truck_sockets st) in
      if truthy registered then
        (case build_message codec ''SERVER'' (py_str registered) ''HEARTBEAT_CHECK'' [] of
           None \<Rightarrow> (Break, last_activity_time, st)
         | Some heartbeat_msg \<Rightarrow>
             (case send_heartbeat env of
                Sent \<Rightarrow> (Continue, clock_after env,
                          st\<lparr>wire := wire st @ [(client_sock, heartbeat_msg)]\<rparr>)
              | SendRaises e \<Rightarrow> (Break, last_activity_time, st)))
      else (Break, last_activity_time, st))"

text \<open>Lines 270-310: the \<open>except\<close> clauses of the pass, in the order of the source.\<close>

fun on_exception ::
  "codec \<Rightarrow> sock \<Rightarrow> io \<Rightarrow> int \<Rightarrow> server \<Rightarrow> exn \<Rightarrow> loop_ctl \<times> int \<times> server" where
  "on_exception codec client_sock env lat st ConnectionResetError = (Break, lat, st)"
| "on_exception codec client_sock env lat st ConnectionAbortedError = (Break, lat, st)"
| "on_exception codec client_sock env lat st SocketTimeout = on_timeout codec client_sock env lat st"
| "on_exception codec client_sock env lat st e = (Continue, lat, st)"

definition iteration ::
  "codec \<Rightarrow> sock \<Rightarrow> string \<Rightarrow> io \<Rightarrow> int \<Rightarrow> server \<Rightarrow> loop_ctl \<times> int \<times> server" where
  "iteration codec client_sock temp_truck_id env last_activity_time st =
     (case read_frame codec client_sock temp_truck_id env last_activity_time st of
        (Inr c, lat', st') \<Rightarrow> (c, lat', st')
      | (Inl e, lat', st') \<Rightarrow> on_exception codec client_sock env lat' st' e)"

text \<open>
  Lines 312-334, the \<open>finally\<close> block: close the socket, delete every key of
  \<open>truck_sockets\<close> that maps to it, delete the address from \<open>clients\<close>.
\<close>

definition cleanup :: "sock \<Rightarrow> string \<times> nat \<Rightarrow> server \<Rightarrow> server" where
  "cleanup client_sock addr st =
     st\<lparr>closed := closed st @ [client_sock],
        truck_sockets := filter (\<lambda>(truck_id, sock). sock \<noteq> client_sock) (truck_sockets st),
        clients := AList.delete (Addr (fst addr) (snd addr)) (clients st)\<rparr>"

text \<open>
  The \<open>while True\<close> loop with its \<open>finally\<close>, run on the passes of a script. The loop
  has no exit condition of its own, so a script that ends before a \<open>break\<close> leaves the
  handler \<open>Serving\<close>: blocked in its next \<open>recv\<close>, socket open, nothing cleaned up.
\<close>

datatype handler_status = Serving | Finished

fun serve ::
  "codec \<Rightarrow> sock \<Rightarrow> string \<times> nat \<Rightarrow> string \<Rightarrow> io list \<Rightarrow> int \<Rightarrow> server
     \<Rightarrow> handler_status \<times> server" where
  "serve codec client_sock addr temp_truck_id [] lat st = (Serving, st)"
| "serve codec client_sock addr temp_truck_id (env # envs) lat st =
     (case iteration codec client_sock temp_truck_id env lat st of
        (Break, lat', st') \<Rightarrow> (Finished, cleanup client_sock addr st')
      | (Continue, lat', st') \<Rightarrow> serve codec client_sock addr temp_truck_id envs lat' st')"

text \<open>
  Lines 139-172 and the loop: the socket is registered under \<open>"TEMP_" + port\<close>, then the
  loop runs. \<open>t0\<close> is the clock when the handler starts. The keepalive options and the
  timeout of lines 156-170 are taken to be set without an exception. Each call of
  \<open>app.set_truck_commander\<close> hands the application the dictionary it already holds, and
  an exception of that call is caught and printed, so the calls leave no trace in the model.
\<close>

definition handle_client ::
  "codec \<Rightarrow> sock \<Rightarrow> string \<times> nat \<Rightarrow> int \<Rightarrow> io list \<Rightarrow> server \<Rightarrow> handler_status \<times> server" where
  "handle_client codec client_sock addr t0 envs st =
     (let temp_truck_id = ''TEMP_'' @ str_nat (snd addr) in
      serve codec client_sock addr temp_truck_id envs t0
        (st\<lparr>truck_sockets := AList.update temp_truck_id client_sock (truck_sockets st)\<rparr>))"

subsection \<open>safe_stop and stop\<close>

text \<open>
  Lines 349-355: \<open>sock.shutdown\<close> then \<open>sock.close\<close> in one \<open>try\<close>, so the socket
  is closed only when the shutdown did not raise. \<open>shutdown_ok s\<close> says whether the
  shutdown of socket \<open>s\<close> succeeds; an entry that is not a socket object has no
  \<open>shutdown\<close> method.
\<close>

definition sock_shutdown :: "(sock \<Rightarrow> bool) \<Rightarrow> client_entry \<Rightarrow> exn + sock" where
  "sock_shutdown shutdown_ok entry =
     (case entry of
        SocketDict s \<Rightarrow> Inl AttributeError
      | SocketObj s \<Rightarrow> if shutdown_ok s then Inr s else Inl (OSError ''shutdown''))"

definition close_client_socket :: "(sock \<Rightarrow> bool) \<Rightarrow> pyval \<times> client_entry \<Rightarrow> server \<Rightarrow> server" where
  "close_client_socket shutdown_ok item st =
     (case sock_shutdown shutdown_ok (snd item) of
        Inl e \<Rightarrow> st
      | Inr s \<Rightarrow> st\<lparr>closed := closed st @ [s]\<rparr>)"

text \<open>
  Lines 336-373. The result is a sum so that an exception leaving the method would be a
  value \<open>Inl\<close>; every \<open>try\<close> of the method catches \<open>Exception\<close>. The shutdown of the
  listening socket is in a \<open>try\<close> of its own, so that socket is closed either way.
\<close>

definition safe_stop :: "(sock \<Rightarrow> bool) \<Rightarrow> server \<Rightarrow> exn + server" where
  "safe_stop shutdown_ok st =
     (let old_running = running st;
          st1 = st\<lparr>running := False\<rparr>
      in if \<not> old_running then Inr st1
         else
           let st2 = fold (close_client_socket shutdown_ok) (clients st1) st1;
               st3 = (case server_sock st2 of
                        None \<Rightarrow> st2
                      | Some s \<Rightarrow> st2\<lparr>closed := closed st2 @ [s]\<rparr>)
           in Inr (st3\<lparr>clients := [], truck_sockets := []\<rparr>))"

text \<open>Lines 375-389.\<close>

definition stop :: "(sock \<Rightarrow> bool) \<Rightarrow> server \<Rightarrow> exn + server" where
  "stop shutdown_ok st =
     (if \<not> running st \<and> server_sock st = None then Inr st
      else safe_stop shutdown_ok st)"

subsection \<open>start\<close>

text \<open>
  The environment of one call of \<open>start\<close>: the two socket objects
  \<open>socket.socket\<close> returns, the outcome of the first \<open>bind\<close> and of the second
  (\<open>None\<close>: it succeeds), what each \<open>accept\<close> does, and the shutdown outcomes for the
  \<open>stop\<close> of the \<open>finally\<close> block. Creating a socket, \<open>setsockopt\<close>,
  \<open>settimeout\<close> and \<open>listen\<close> are taken to succeed.
\<close>

datatype accept_event = Accepted sock string nat | AcceptRaises exn

record start_io =
  sock1 :: sock
  sock2 :: sock
  bind1 :: "exn option"
  bind2 :: "exn option"
  accepts :: "accept_event list"
  stop_shutdown_ok :: "sock \<Rightarrow> bool"

text \<open>The classes that \<open>except OSError\<close> catches: \<open>OSError\<close> and its subclasses.\<close>

definition is_os_error :: "exn \<Rightarrow> bool" where
  "is_os_error e =
     (case e of
        SocketTimeout \<Rightarrow> True
      | ConnectionResetError \<Rightarrow> True
      | ConnectionAbortedError \<Rightarrow> True
      | OSError msg \<Rightarrow> True
      | _ \<Rightarrow> False)"

text \<open>
  Lines 111-131: \<open>socket.timeout\<close> continues the loop, another \<open>OSError\<close> ends it
  with \<open>break\<close>, and any other exception leaves the loop and the body of the outer
  \<open>try\<close>. \<open>None\<close>: the script of accepts ended with the loop still accepting.
\<close>

fun accept_loop :: "accept_event list \<Rightarrow> server \<Rightarrow> (exn option \<times> server) option" where
  "accept_loop [] st = (if running st then None else Some (None, st))"
| "accept_loop (ev # evs) st =
     (if \<not> running st then Some (None, st)
      else
        (case ev of
           Accepted client_sock host port \<Rightarrow>
             accept_loop evs
               (st\<lparr>clients := AList.update (Addr host port) (SocketObj client_sock) (clients st),
                   spawned := spawned st @ [(client_sock, host, port)]\<rparr>)
         | AcceptRaises e \<Rightarrow>
             if e = SocketTimeout then accept_loop evs st
             else if is_os_error e then Some (None, st)
             else Some (Some e, st)))"

text \<open>Line 107 and the loop: \<open>listen\<close> on the bound socket, then accept.\<close>

definition listen_and_accept ::
  "sock \<Rightarrow> accept_event list \<Rightarrow> server \<Rightarrow> (exn option \<times> server) option" where
  "listen_and_accept s evs st = accept_loop evs (st\<lparr>listening := listening st @ [s]\<rparr>)"

text \<open>
  Lines 88-89: the handler of the first \<open>bind\<close> catches \<open>OSError\<close> and tests
  \<open>"Address already in use" in str(e)\<close>; the string carried by \<open>OSError\<close> is
  \<open>str(e)\<close>. An exception of another class is not a case of the retry.
\<close>

definition address_in_use :: "exn \<Rightarrow> bool" where
  "address_in_use e =
     (case e of OSError msg \<Rightarrow> contains ''Address already in use'' msg | _ \<Rightarrow> False)"

text \<open>
  Lines 69-131, the body of the outer \<open>try\<close>: the exception that leaves it, if any, and
  the server at that point. The retry closes the first socket, sleeps 5 seconds and binds
  a new socket; this second \<open>bind\<close> has no handler, and the \<open>else: raise\<close> of the
  first one raises again what it caught.
\<close>

definition start_try :: "start_io \<Rightarrow> server \<Rightarrow> (exn option \<times> server) option" where
  "start_try env st =
     (let st1 = st\<lparr>server_sock := Some (sock1 env), bound := bound st @ [sock1 env]\<rparr> in
      case bind1 env of
        None \<Rightarrow> listen_and_accept (sock1 env) (accepts env) st1
      | Some e \<Rightarrow>
          if address_in_use e then
            let st2 = st1\<lparr>closed := closed st1 @ [sock1 env],
                          slept := slept st1 @ [5],
                          server_sock := Some (sock2 env),
                          bound := bound st1 @ [sock2 env]\<rparr>
            in (case bind2 env of
                  None \<Rightarrow> listen_and_accept (sock2 env) (accepts env) st2
                | Some e2 \<Rightarrow> Some (Some e2, st2))
          else Some (Some e, st1))"

text \<open>
  Lines 66-137: \<open>except Exception\<close> prints whatever left the body, and the \<open>finally\<close>
  block calls \<open>stop\<close>; the value of \<open>start\<close> is what \<open>stop\<close> leaves.
\<close>

definition start :: "start_io \<Rightarrow> server \<Rightarrow> (exn + server) option" where
  "start env st =
     (case start_try env (st\<lparr>running := True\<rparr>) of
        None \<Rightarrow> None
      | Some (raised, st1) \<Rightarrow> Some (stop (stop_shutdown_ok env) st1))"

subsection \<open>send_message\<close>

text \<open>
  \<open>self.clients[client_id]["socket"]\<close>: subscripting a socket object raises
  \<open>TypeError\<close>. \<open>self._close_client\<close>: the class defines no such method, so the
  attribute lookup raises \<open>AttributeError\<close>.
\<close>

definition socket_field :: "client_entry \<Rightarrow> exn + sock" where
  "socket_field entry = (case entry of SocketObj s \<Rightarrow> Inl TypeError | SocketDict s \<Rightarrow> Inr s)"

definition close_client :: "server \<Rightarrow> pyval \<Rightarrow> exn + server" where
  "close_client st client_id = Inl AttributeError"

text \<open>
  Lines 391-421. \<open>write\<close> is the outcome of \<open>client_sock.sendall\<close>. Only the
  \<open>sendall\<close> is inside a \<open>try\<close>; an exception of the subscript, of \<open>build_message\<close>
  or of the \<open>except\<close> block itself leaves the method.
\<close>

definition send_message ::
  "codec \<Rightarrow> send_result \<Rightarrow> server \<Rightarrow> pyval \<Rightarrow> string \<Rightarrow> payload option \<Rightarrow> exn + bool \<times> server" where
  "send_message codec write st client_id command payload_arg =
     (let payload = (case payload_arg of None \<Rightarrow> [] | Some p \<Rightarrow> p) in
      case map_of (clients st) client_id of
        None \<Rightarrow> Inr (False, st)
      | Some entry \<Rightarrow>
          (case socket_field entry of
             Inl e \<Rightarrow> Inl e
           | Inr client_sock \<Rightarrow>
               (case build_message codec ''SERVER'' client_id command payload of
                  None \<Rightarrow> Inl OtherError
                | Some message \<Rightarrow>
                    (case write of
                       Sent \<Rightarrow> Inr (True, st\<lparr>wire := wire st @ [(client_sock, message)]\<rparr>)
                     | SendRaises e \<Rightarrow>
                         (case close_client st client_id of
                            Inl e' \<Rightarrow> Inl e'
                          | Inr st' \<Rightarrow> Inr (False, st'))))))"

subsection \<open>A codec to run the server on\<close>

text \<open>
  A small stand-in for \<open>TCPProtocol\<close>, used only where the server is run on concrete
  bytes: byte 0 names the sender, byte 1 the receiver, byte 2 the command and byte 3 is the
  payload length of the frame format.
\<close>

definition demo_name :: "byte \<Rightarrow> string option" where
  "demo_name b =
     (if b = 1 then Some ''TRUCK_1'' else if b = 2 then Some ''TRUCK_2''
      else if b = 16 then Some ''SERVER'' else if b = 0 then Some [] else None)"

definition demo_cmd :: "byte \<Rightarrow> string option" where
  "demo_cmd b =
     (if b = 1 then Some ''HELLO'' else if b = 2 then Some ''HEARTBEAT_ACK''
      else if b = 3 then Some ''HEARTBEAT_CHECK'' else if b = 4 then Some ''STATUS''
      else if b = 5 then Some ''RUN'' else None)"

definition demo_name_code :: "pyval \<Rightarrow> byte" where
  "demo_name_code v =
     (if v = Str ''TRUCK_1'' then 1 else if v = Str ''TRUCK_2'' then 2
      else if v = Str ''SERVER'' then 16 else 0)"

definition demo_cmd_code :: "string \<Rightarrow> byte" where
  "demo_cmd_code c =
     (if c = ''HELLO'' then 1 else if c = ''HEARTBEAT_ACK'' then 2
      else if c = ''HEARTBEAT_CHECK'' then 3 else if c = ''STATUS'' then 4
      else if c = ''RUN'' then 5 else 0)"

definition demo_parse :: "byte list \<Rightarrow> message option" where
  "demo_parse raw =
     (if length raw < 4
      then Some \<lparr>mtype = Some ''INVALID'', sender = None, cmd = None, payload = []\<rparr>
      else Some \<lparr>mtype = None, sender = demo_name (raw ! 0), cmd = demo_cmd (raw ! 2),
                 payload = []\<rparr>)"

definition demo_build :: "string \<Rightarrow> pyval \<Rightarrow> string \<Rightarrow> payload \<Rightarrow> byte list option" where
  "demo_build from_id to_id command p =
     Some [demo_name_code (Str from_id), demo_name_code to_id, demo_cmd_code command, 0]"

definition demo_codec :: codec where
  "demo_codec = \<lparr>parse_message = demo_parse, build_message = demo_build\<rparr>"

text \<open>A quiet pass: the clock reads \<open>t\<close>, every socket call succeeds, the header read returns \<open>h\<close>.\<close>

definition quiet :: "int \<Rightarrow> byte list \<Rightarrow> io" where
  "quiet t h = \<lparr>clock = t, send_probe = Sent, recv_header = Data h, recv_payload = Data [],
     send_ack = Sent, send_heartbeat = Sent, clock_after = t\<rparr>"

subsection \<open>Reading the registry\<close>

text \<open>The keys of \<open>truck_sockets\<close> that map to a socket, in dictionary order.\<close>

definition ids_of :: "sock \<Rightarrow> (string \<times> sock) list \<Rightarrow> string list" where
  "ids_of s ts = map fst (filter (\<lambda>(tid, sock). sock = s) ts)"

text \<open>
  The server after its accept loop took two connections, from ports 5001 and 5002, as
  lines 113-123 leave it; the two handlers have not run yet.
\<close>

definition two_accepted :: server where
  "two_accepted = init_server\<lparr>running := True, server_sock := Some 10,
     clients := [(Addr ''10.0.0.7'' 5001, SocketObj 1), (Addr ''10.0.0.7'' 5002, SocketObj 2)],
     bound := [10], listening := [10],
     spawned := [(1, ''10.0.0.7'', 5001), (2, ''10.0.0.7'', 5002)]\<rparr>"

text \<open>
  Both handlers have run one pass: the first connection sent \<open>HELLO\<close> as \<open>TRUCK_1\<close>,
  then the second connection sent \<open>STATUS\<close> as \<open>TRUCK_1\<close>.
\<close>

definition both_identified :: server where
  "both_identified =
     snd (handle_client demo_codec 2 (''10.0.0.7'', 5002) 0 [quiet 2 [1, 16, 4, 0]]
       (snd (handle_client demo_codec 1 (''10.0.0.7'', 5001) 0 [quiet 1 [1, 16, 1, 0]]
          two_accepted)))"

subsection \<open>What a pass reads\<close>

text \<open>
  The bytes a pass hands to \<open>parse_message\<close> when both reads are complete: the header,
  and the payload when the header's fourth byte is not zero. A short read, an end of
  stream or a raising read gives \<open>None\<close>.
\<close>

definition frame_of :: "io \<Rightarrow> byte list option" where
  "frame_of env =
     (case recv 4 (recv_header env) of
        RecvRaises e \<Rightarrow> None
      | Data header_data \<Rightarrow>
          if length header_data < 4 then None
          else if 0 < unat (header_data ! 3) then
            (case recv (unat (header_data ! 3)) (recv_payload env) of
               RecvRaises e \<Rightarrow> None
             | Data payload_data \<Rightarrow>
                 if length payload_data < unat (header_data ! 3) then None
                 else Some (header_data @ payload_data))
          else Some header_data)"

text \<open>The read of a pass times out: \<open>recv\<close> raises \<open>socket.timeout\<close>, at the header or at the payload.\<close>

definition timed_out :: "io \<Rightarrow> bool" where
  "timed_out env =
     (case recv 4 (recv_header env) of
        RecvRaises e \<Rightarrow> e = SocketTimeout
      | Data header_data \<Rightarrow>
          4 \<le> length header_data \<and> 0 < unat (header_data ! 3) \<and>
          recv_payload env = RecvRaises SocketTimeout)"

subsection \<open>A device whose name starts with TEMP\<close>

text \<open>
  The stand-in codec with one more device: sender byte 9 is a device that calls itself
  \<open>TEMP_TRUCK\<close>.
\<close>

definition demo_codec_temp :: codec where
  "demo_codec_temp =
     demo_codec\<lparr>parse_message :=
       (\<lambda>raw. if 4 \<le> length raw \<and> raw ! 0 = 9
              then Some \<lparr>mtype = None, sender = Some ''TEMP_TRUCK'', cmd = demo_cmd (raw ! 2),
                         payload = []\<rparr>
              else demo_parse raw)\<rparr>"

section \<open>Properties\<close>

subsection \<open>Unfolding and evaluation\<close>

lemmas handler_defs = handle_client_def iteration_def read_frame_def recv_def dispatch_def
  register_truck_def on_timeout_def registered_truck_id_def cleanup_def py_str_def startswith_def

lemmas demo_defs = demo_codec_def demo_parse_def demo_build_def demo_name_def demo_cmd_def
  demo_name_code_def demo_cmd_code_def quiet_def init_server_def

lemma str_nat_5001: "str_nat 5001 = ''5001''"
  by (simp add: str_nat.simps)

lemma str_nat_5002: "str_nat 5002 = ''5002''"
  by (simp add: str_nat.simps)

lemma recv_simps [simp]:
  "recv n (Data bs) = Data (take n bs)" "recv n (RecvRaises e) = RecvRaises e"
  by (simp_all add: recv_def)

lemma both_identified_eq:
  "both_identified = two_accepted\<lparr>truck_sockets := [(''TRUCK_1'', 2), (''TEMP_5002'', 2)],
      wire := [(1, [16, 1, 2, 0])],
      handled := [\<lparr>mtype = None, sender = Some ''TRUCK_1'', cmd = Some ''STATUS'',
                   payload = []\<rparr>]\<rparr>"
  by (simp add: both_identified_def two_accepted_def handler_defs demo_defs
        str_nat_5001 str_nat_5002)

subsection \<open>One pass of the read loop\<close>

lemma dispatch_continue: "fst (dispatch codec cs temp env raw st) = Continue"
  by (auto simp: dispatch_def Let_def split: option.splits send_result.splits)

lemma dispatch_closed: "closed (snd (dispatch codec cs temp env raw st)) = closed st"
  by (auto simp: dispatch_def Let_def split: option.splits send_result.splits)

lemma dispatch_truck_sockets:
  assumes "parse_message codec raw = Some m" "mtype m \<noteq> Some ''INVALID''"
    and "sender m = Some tid" "tid \<noteq> []"
  shows "truck_sockets (snd (dispatch codec cs temp env raw st)) =
           register_truck cs temp tid (truck_sockets st)"
  using assms by (auto simp: dispatch_def Let_def split: option.splits send_result.splits)

lemma iteration_frame:
  assumes "\<not> (clock env - lat > 300 \<and> send_probe env \<noteq> Sent)" "frame_of env = Some raw"
  shows "iteration codec cs temp env lat st =
           (fst (dispatch codec cs temp env raw st), clock env,
            snd (dispatch codec cs temp env raw st))"
  using assms
  by (auto simp: iteration_def read_frame_def frame_of_def Let_def
           split: recv_result.splits if_splits prod.splits)

lemma serve_frame:
  assumes "\<not> (clock env - lat > 300 \<and> send_probe env \<noteq> Sent)" "frame_of env = Some raw"
  shows "serve codec cs addr temp (env # envs) lat st =
           serve codec cs addr temp envs (clock env) (snd (dispatch codec cs temp env raw st))"
  using iteration_frame [OF assms, of codec cs temp st]
    dispatch_continue [of codec cs temp env raw st]
  by simp

lemma iteration_timed_out:
  assumes "\<not> (clock env - lat > 300 \<and> send_probe env \<noteq> Sent)" "timed_out env"
  shows "\<exists>lat1. iteration codec cs temp env lat st = on_timeout codec cs env lat1 st"
  using assms
  by (auto simp: iteration_def read_frame_def timed_out_def Let_def
           split: recv_result.splits if_splits prod.splits)

lemma iteration_short_header:
  assumes "recv_header env = Data h" "0 < length h" "length h < 4"
    and "\<not> (clock env - lat > 300 \<and> send_probe env \<noteq> Sent)"
  shows "iteration codec cs temp env lat st =
           (Continue, (if clock env - lat > 300 then clock env else lat), st)"
  using assms by (auto simp: iteration_def read_frame_def Let_def)

lemma iteration_short_payload:
  assumes "recv_header env = Data h" "4 \<le> length h"
    and "recv_payload env = Data p" "length p < unat (h ! 3)"
    and "\<not> (clock env - lat > 300 \<and> send_probe env \<noteq> Sent)"
  shows "iteration codec cs temp env lat st = (Continue, clock env, st)"
  using assms by (auto simp: iteration_def read_frame_def Let_def)

subsection \<open>The registry\<close>

lemma ids_of_delete: "ids_of s (AList.delete k ts) = filter (\<lambda>k'. k' \<noteq> k) (ids_of s ts)"
  by (induction ts) (auto simp: ids_of_def AList.delete_eq)

lemma ids_of_update_new:
  "k \<notin> set (map fst ts) \<Longrightarrow>
     ids_of s (AList.update k v ts) = ids_of s ts @ (if v = s then [k] else [])"
  by (induction ts) (auto simp: ids_of_def)

lemma ids_of_keys: "set (ids_of s ts) \<subseteq> set (map fst ts)"
  by (auto simp: ids_of_def)

lemma map_of_ids_of:
  "distinct (map fst ts) \<Longrightarrow> k \<in> set (ids_of s ts) \<longleftrightarrow> map_of ts k = Some s"
  by (induction ts) (auto simp: ids_of_def rev_image_eqI)

lemma register_fresh:
  assumes "tid \<notin> set (map fst ts)" "ids_of cs ts = [temp]"
  shows "ids_of cs (register_truck cs temp tid ts) = [tid]"
    and "map_of (register_truck cs temp tid ts) temp = None"
    and "map_of (register_truck cs temp tid ts) tid = Some cs"
proof -
  have temp: "temp \<in> set (map fst ts)"
    using ids_of_keys [of cs ts] assms(2) by auto
  moreover have "tid \<notin> set (map fst (AList.delete temp ts))"
    using assms(1) by (simp add: AList.delete_keys)
  ultimately show "ids_of cs (register_truck cs temp tid ts) = [tid]"
    using assms by (simp add: register_truck_def ids_of_update_new ids_of_delete)
  from temp assms(1) have "temp \<noteq> tid" by auto
  with temp assms(1) show "map_of (register_truck cs temp tid ts) temp = None"
    by (simp add: register_truck_def AList.update_conv' AList.delete_conv')
  show "map_of (register_truck cs temp tid ts) tid = Some cs"
    by (simp add: register_truck_def AList.update_conv')
qed

lemma register_present:
  assumes "map_of ts tid = Some old" "distinct (map fst ts)"
  shows "map_of (register_truck cs temp tid ts) tid = Some cs"
    and "map fst (register_truck cs temp tid ts) = map fst ts"
proof -
  have "tid \<in> set (map fst ts)"
    using assms(1) by (metis map_of_eq_None_iff option.distinct(1) set_map)
  then show "map_of (register_truck cs temp tid ts) tid = Some cs"
    and "map fst (register_truck cs temp tid ts) = map fst ts"
    by (simp_all add: register_truck_def AList.update_conv' AList.update_keys)
qed

lemma registered_truck_id_Some:
  assumes "registered_truck_id cs ts = Some tid"
  shows "(tid, cs) \<in> set ts \<and> \<not> startswith tid ''TEMP_''"
proof -
  from assms obtain x
    where x: "find (\<lambda>(tid, sock). sock = cs \<and> \<not> startswith tid ''TEMP_'') ts = Some x"
      and "fst x = tid"
    by (auto simp: registered_truck_id_def)
  then show ?thesis by (cases x) (auto simp: find_Some_iff in_set_conv_nth)
qed

lemma registered_truck_id_None:
  "registered_truck_id cs ts = None \<longleftrightarrow>
     (\<forall>(t, s) \<in> set ts. s = cs \<longrightarrow> startswith t ''TEMP_'')"
  by (auto simp: registered_truck_id_def find_None_iff)

lemma on_timeout_anonymous:
  assumes "registered_truck_id cs (truck_sockets st) = None"
  shows "on_timeout codec cs env lat st = (Break, lat, st)"
  using assms by (simp add: on_timeout_def)

lemma on_timeout_identified:
  assumes "registered_truck_id cs (truck_sockets st) = Some tid" "tid \<noteq> []"
    and "build_message codec ''SERVER'' (Str tid) ''HEARTBEAT_CHECK'' [] = Some probe"
  shows "on_timeout codec cs env lat st =
           (if send_heartbeat env = Sent
            then (Continue, clock_after env, st\<lparr>wire := wire st @ [(cs, probe)]\<rparr>)
            else (Break, lat, st))"
  using assms by (auto simp: on_timeout_def py_str_def split: send_result.splits)

subsection \<open>Short reads\<close>

text \<open>
  Claim C1, as the code has it: a short read is not fatal. In a pass that reaches the
  header read (the long-silence probe, if one was due, did not fail), when the header read
  returns 1 to 3 bytes, or returns a full header and the payload read returns fewer bytes
  than the header's fourth byte declares, the pass ends with \<open>continue\<close>: nothing is
  decoded or forwarded, the server is left as it was, and the handler goes on with its
  next pass instead of closing the connection.
\<close>

theorem short_read_continues:
  assumes reached: "\<not> (clock env - lat > 300 \<and> send_probe env \<noteq> Sent)"
    and header: "recv_header env = Data h"
    and short: "(0 < length h \<and> length h < 4) \<or>
                (4 \<le> length h \<and> recv_payload env = Data p \<and> length p < unat (h ! 3))"
  shows "fst (iteration codec cs temp env lat st) = Continue \<and>
         snd (snd (iteration codec cs temp env lat st)) = st \<and>
         (\<exists>lat'. serve codec cs addr temp (env # envs) lat st =
                  serve codec cs addr temp envs lat' st)"
proof -
  from short obtain lat' where it: "iteration codec cs temp env lat st = (Continue, lat', st)"
  proof
    assume "0 < length h \<and> length h < 4"
    with header reached show ?thesis
      using that iteration_short_header [of env h lat codec cs temp st] by blast
  next
    assume "4 \<le> length h \<and> recv_payload env = Data p \<and> length p < unat (h ! 3)"
    with header reached show ?thesis
      using that iteration_short_payload [of env h p lat codec cs temp st] by blast
  qed
  then have "serve codec cs addr temp (env # envs) lat st = serve codec cs addr temp envs lat' st"
    by simp
  with it show ?thesis by auto
qed

text \<open>
  The theorem at a header that declares 10 payload bytes of which 4 arrive, and at a
  header read that returns 2 bytes.
\<close>

theorem short_read_continues_witness:
  "length [1, 2, 3, 4 :: byte] < unat ([1, 16, 4, 10 :: byte] ! 3) \<and>
   fst (iteration demo_codec 1 ''TEMP_5001''
          ((quiet 7 [1, 16, 4, 10])\<lparr>recv_payload := Data [1, 2, 3, 4]\<rparr>) 0 init_server) = Continue \<and>
   snd (snd (iteration demo_codec 1 ''TEMP_5001''
          ((quiet 7 [1, 16, 4, 10])\<lparr>recv_payload := Data [1, 2, 3, 4]\<rparr>) 0 init_server)) = init_server \<and>
   fst (iteration demo_codec 1 ''TEMP_5001'' (quiet 7 [1, 16]) 0 init_server) = Continue"
  using short_read_continues [of "(quiet 7 [1, 16, 4, 10])\<lparr>recv_payload := Data [1, 2, 3, 4]\<rparr>" 0
      "[1, 16, 4, 10]" "[1, 2, 3, 4]" demo_codec 1 "''TEMP_5001''" init_server
      "(''10.0.0.7'', 5001)" "[]"]
    short_read_continues [of "quiet 7 [1, 16]" 0 "[1, 16]" "[]" demo_codec 1 "''TEMP_5001''"
      init_server "(''10.0.0.7'', 5001)" "[]"]
  by (simp add: quiet_def)

text \<open>
  Against C1 as stated: a handler whose first header read returns 2 bytes, or whose first
  payload read returns 4 of 10 declared bytes, is still serving afterwards; it reads the
  next 4 bytes as a header, answers the \<open>HELLO\<close> it finds there, and its socket was
  never closed.
\<close>

theorem short_read_not_fatal:
  "handle_client demo_codec 1 (''10.0.0.7'', 5001) 0
       [quiet 1 [1, 16], quiet 2 [1, 16, 1, 0]] init_server
     = (Serving, init_server\<lparr>truck_sockets := [(''TRUCK_1'', 1)],
                              wire := [(1, [16, 1, 2, 0])]\<rparr>) \<and>
   handle_client demo_codec 1 (''10.0.0.7'', 5001) 0
       [(quiet 1 [1, 16, 4, 10])\<lparr>recv_payload := Data [1, 2, 3, 4]\<rparr>, quiet 2 [1, 16, 1, 0]]
       init_server
     = (Serving, init_server\<lparr>truck_sockets := [(''TRUCK_1'', 1)],
                              wire := [(1, [16, 1, 2, 0])]\<rparr>) \<and>
   closed init_server = []"
  by (simp add: handler_defs demo_defs str_nat_5001)

subsection \<open>Promotion and supersession\<close>

text \<open>
  Claim C2, as the code has it: a connection that is registered under its temporary
  identifier only, and whose decoded message carries a non-empty sender that is not yet a
  key of the registry, is promoted in one step: the temporary entry is removed, the
  identified entry is inserted, and afterwards the socket is registered under exactly
  that one identifier.
\<close>

theorem promotion_to_fresh_identifier:
  assumes "parse_message codec raw = Some m" and "mtype m \<noteq> Some ''INVALID''"
    and "sender m = Some tid" and "tid \<noteq> []"
    and "tid \<notin> set (map fst (truck_sockets st))"
    and "ids_of cs (truck_sockets st) = [temp]"
  shows "ids_of cs (truck_sockets (snd (dispatch codec cs temp env raw st))) = [tid] \<and>
         map_of (truck_sockets (snd (dispatch codec cs temp env raw st))) temp = None \<and>
         map_of (truck_sockets (snd (dispatch codec cs temp env raw st))) tid = Some cs"
  using assms register_fresh [of tid "truck_sockets st" cs temp]
  by (simp add: dispatch_truck_sockets)

text \<open>The theorem at the first \<open>HELLO\<close> of \<open>TRUCK_1\<close> on the connection from port 5001.\<close>

theorem promotion_to_fresh_identifier_witness:
  "ids_of 1 (truck_sockets (init_server\<lparr>truck_sockets := [(''TEMP_5001'', 1)]\<rparr>)) = [''TEMP_5001''] \<and>
   ids_of 1 (truck_sockets (snd (dispatch demo_codec 1 ''TEMP_5001'' (quiet 1 [1, 16, 1, 0])
       [1, 16, 1, 0] (init_server\<lparr>truck_sockets := [(''TEMP_5001'', 1)]\<rparr>)))) = [''TRUCK_1''] \<and>
   map_of (truck_sockets (snd (dispatch demo_codec 1 ''TEMP_5001'' (quiet 1 [1, 16, 1, 0])
       [1, 16, 1, 0] (init_server\<lparr>truck_sockets := [(''TEMP_5001'', 1)]\<rparr>)))) ''TEMP_5001'' = None"
  using promotion_to_fresh_identifier [of demo_codec "[1, 16, 1, 0]"
      "\<lparr>mtype = None, sender = Some ''TRUCK_1'', cmd = Some ''HELLO'', payload = []\<rparr>"
      "''TRUCK_1''" "init_server\<lparr>truck_sockets := [(''TEMP_5001'', 1)]\<rparr>" 1 "''TEMP_5001''"
      "quiet 1 [1, 16, 1, 0]"]
  by (simp add: demo_defs ids_of_def)

text \<open>
  Against C2 as stated: after the connection from port 5002 is promoted by its first
  message, whose sender \<open>TRUCK_1\<close> is already a key, its socket 2 is registered under
  both \<open>TRUCK_1\<close> and \<open>TEMP_5002\<close>, and the open socket 1 of the first connection is
  registered under no identifier.
\<close>

theorem promotion_keeps_temporary_entry:
  "ids_of 2 (truck_sockets both_identified) = [''TRUCK_1'', ''TEMP_5002''] \<and>
   map_of (truck_sockets both_identified) ''TEMP_5002'' = Some 2 \<and>
   map_of (truck_sockets both_identified) ''TRUCK_1'' = Some 2 \<and>
   ids_of 1 (truck_sockets both_identified) = [] \<and>
   1 \<notin> set (closed both_identified)"
  by (simp add: both_identified_eq two_accepted_def init_server_def ids_of_def)

text \<open>
  Claim C3, as the code has it: when a connection identifies under an identifier that
  already maps to a different socket, the entry of that identifier is overwritten in
  place: afterwards the identifier maps to the new socket, the registry still has one
  entry per key, and the identifier is no longer among those of the old socket. Nothing
  is closed by this step: the old socket stays open.
\<close>

theorem reidentification_overwrites:
  assumes "parse_message codec raw = Some m" and "mtype m \<noteq> Some ''INVALID''"
    and "sender m = Some tid" and "tid \<noteq> []"
    and "map_of (truck_sockets st) tid = Some old" and "old \<noteq> cs"
    and "distinct (map fst (truck_sockets st))"
  shows "map_of (truck_sockets (snd (dispatch codec cs temp env raw st))) tid = Some cs \<and>
         distinct (map fst (truck_sockets (snd (dispatch codec cs temp env raw st)))) \<and>
         tid \<notin> set (ids_of old (truck_sockets (snd (dispatch codec cs temp env raw st)))) \<and>
         closed (snd (dispatch codec cs temp env raw st)) = closed st"
proof -
  let ?ts' = "truck_sockets (snd (dispatch codec cs temp env raw st))"
  have ts': "?ts' = register_truck cs temp tid (truck_sockets st)"
    using assms by (simp add: dispatch_truck_sockets)
  have new: "map_of ?ts' tid = Some cs" and keys: "map fst ?ts' = map fst (truck_sockets st)"
    using register_present [OF assms(5) assms(7), of cs temp] ts' by simp_all
  have dist: "distinct (map fst ?ts')"
    using keys assms(7) by simp
  have "tid \<notin> set (ids_of old ?ts')"
    using map_of_ids_of [OF dist, of tid old] new assms(6) by simp
  with new dist show ?thesis
    by (simp add: dispatch_closed)
qed

text \<open>
  The theorem at the first message of the second connection, sent as \<open>TRUCK_1\<close> while
  \<open>TRUCK_1\<close> maps to socket 1.
\<close>

theorem reidentification_overwrites_witness:
  "map_of (truck_sockets (two_accepted\<lparr>truck_sockets := [(''TRUCK_1'', 1), (''TEMP_5002'', 2)]\<rparr>))
      ''TRUCK_1'' = Some 1 \<and>
   map_of (truck_sockets (snd (dispatch demo_codec 2 ''TEMP_5002'' (quiet 2 [1, 16, 4, 0])
      [1, 16, 4, 0] (two_accepted\<lparr>truck_sockets := [(''TRUCK_1'', 1), (''TEMP_5002'', 2)]\<rparr>))))
      ''TRUCK_1'' = Some 2 \<and>
   closed (snd (dispatch demo_codec 2 ''TEMP_5002'' (quiet 2 [1, 16, 4, 0])
      [1, 16, 4, 0] (two_accepted\<lparr>truck_sockets := [(''TRUCK_1'', 1), (''TEMP_5002'', 2)]\<rparr>))) = []"
  using reidentification_overwrites [of demo_codec "[1, 16, 4, 0]"
      "\<lparr>mtype = None, sender = Some ''TRUCK_1'', cmd = Some ''STATUS'', payload = []\<rparr>"
      "''TRUCK_1''" "two_accepted\<lparr>truck_sockets := [(''TRUCK_1'', 1), (''TEMP_5002'', 2)]\<rparr>"
      1 2 "''TEMP_5002''" "quiet 2 [1, 16, 4, 0]"]
  by (simp add: demo_defs two_accepted_def)

text \<open>
  Against C3 as stated: after the second connection identified as \<open>TRUCK_1\<close>, the first
  socket has not been closed (no socket has), and \<open>send_message("TRUCK_1", "RUN")\<close>
  returns \<open>False\<close> with the server unchanged: nothing is written to the second socket.
\<close>

theorem superseded_socket_stays_open:
  "map_of (truck_sockets both_identified) ''TRUCK_1'' = Some 2 \<and>
   closed both_identified = [] \<and>
   1 \<notin> set (closed both_identified) \<and>
   send_message demo_codec Sent both_identified (Str ''TRUCK_1'') ''RUN'' None =
     Inr (False, both_identified)"
  by (simp add: both_identified_eq two_accepted_def init_server_def send_message_def)

subsection \<open>send_message\<close>

text \<open>
  With \<open>clients\<close> as \<open>start\<close> fills it (address tuples mapped to socket objects),
  \<open>send_message\<close> never writes: a device name is not a key of \<open>clients\<close>, and for a
  key of \<open>clients\<close> the subscript \<open>["socket"]\<close> raises.
\<close>

lemma send_message_never_writes:
  assumes "\<forall>(k, e) \<in> set (clients st). \<exists>host port s. k = Addr host port \<and> e = SocketObj s"
  shows "send_message codec write st (Str name) command p = Inr (False, st)"
    and "send_message codec write st client_id command p = Inr (False, st) \<or>
         send_message codec write st client_id command p = Inl TypeError"
proof -
  have "map_of (clients st) (Str name) = None"
    using assms by (force simp: map_of_eq_None_iff)
  then show "send_message codec write st (Str name) command p = Inr (False, st)"
    by (simp add: send_message_def)
  show "send_message codec write st client_id command p = Inr (False, st) \<or>
        send_message codec write st client_id command p = Inl TypeError"
  proof (cases "map_of (clients st) client_id")
    case None
    then show ?thesis by (simp add: send_message_def)
  next
    case (Some e)
    then have "(client_id, e) \<in> set (clients st)" by (rule map_of_SomeD)
    with assms obtain s where "e = SocketObj s" by fastforce
    with Some show ?thesis by (simp add: send_message_def socket_field_def)
  qed
qed

text \<open>
  Claim C4 on the code. \<open>TRUCK_1\<close> is a key of the registry \<open>truck_sockets\<close>
  (mapped to the open socket 2), yet \<open>send_message("TRUCK_1", "RUN")\<close> finds no such
  key in \<open>clients\<close>, returns \<open>False\<close> and writes nothing; called with the address
  under which \<open>clients\<close> holds that socket, it raises \<open>TypeError\<close> at the subscript,
  before anything is encoded or written.
\<close>

theorem send_message_misses_registry:
  "map_of (truck_sockets both_identified) ''TRUCK_1'' = Some 2 \<and>
   map_of (clients both_identified) (Addr ''10.0.0.7'' 5002) = Some (SocketObj 2) \<and>
   send_message demo_codec Sent both_identified (Str ''TRUCK_1'') ''RUN'' None =
     Inr (False, both_identified) \<and>
   send_message demo_codec Sent both_identified (Addr ''10.0.0.7'' 5002) ''RUN'' None =
     Inl TypeError"
  by (simp add: both_identified_eq two_accepted_def init_server_def send_message_def
        socket_field_def)

text \<open>
  Claim C5 on the code. Where the entry of \<open>clients\<close> has the form
  \<open>send_message\<close> reads (a dictionary with a \<open>"socket"\<close> key) and the write fails,
  the \<open>except\<close> block calls \<open>self._close_client\<close>, which does not exist: the caller
  gets \<open>AttributeError\<close> instead of \<open>False\<close>, and no socket is closed. The same write
  succeeding returns \<open>True\<close>. With the entry as \<open>start\<close> stores it the write is never
  reached: the caller gets \<open>TypeError\<close>.
\<close>

theorem send_failure_raises:
  "send_message demo_codec (SendRaises ConnectionResetError)
       (init_server\<lparr>clients := [(Str ''TRUCK_1'', SocketDict 1)]\<rparr>) (Str ''TRUCK_1'') ''RUN'' None
     = Inl AttributeError \<and>
   send_message demo_codec Sent
       (init_server\<lparr>clients := [(Str ''TRUCK_1'', SocketDict 1)]\<rparr>) (Str ''TRUCK_1'') ''RUN'' None
     = Inr (True, init_server\<lparr>clients := [(Str ''TRUCK_1'', SocketDict 1)],
                               wire := [(1, [16, 1, 5, 0])]\<rparr>) \<and>
   send_message demo_codec (SendRaises ConnectionResetError) two_accepted
       (Addr ''10.0.0.7'' 5001) ''RUN'' None
     = Inl TypeError"
  by (simp add: two_accepted_def send_message_def socket_field_def close_client_def demo_defs)

subsection \<open>Idle timeout and heartbeats\<close>

lemma registered_truck_id_found:
  assumes "(t, cs) \<in> set ts" and "\<not> startswith t ''TEMP_''"
  shows "\<exists>tid. registered_truck_id cs ts = Some tid"
proof (cases "registered_truck_id cs ts")
  case None
  with assms show ?thesis by (auto simp: registered_truck_id_None)
next
  case (Some tid)
  then show ?thesis by blast
qed

text \<open>
  Claim C6, as the code has it. The handler tells an identified connection from an
  anonymous one by the text of the registry keys. In a pass whose read times out: when the
  registry holds for this socket a key that does not start with \<open>TEMP_\<close>, the handler
  writes to the socket the \<open>HEARTBEAT_CHECK\<close> message addressed to such a key and goes
  on with its next pass; when that write fails the loop ends and the cleanup closes the
  socket. When every key of this socket starts with \<open>TEMP_\<close>, the loop ends and the
  socket is closed with nothing written. (No key of the socket is the empty string, and
  the codec builds the probe.)
\<close>

theorem idle_timeout_policy:
  assumes reached: "\<not> (clock env - lat > 300 \<and> send_probe env \<noteq> Sent)"
    and timeout: "timed_out env"
  shows "((t, cs) \<in> set (truck_sockets st) \<and> \<not> startswith t ''TEMP_'' \<and>
          ([], cs) \<notin> set (truck_sockets st) \<and>
          (\<forall>r. build_message codec ''SERVER'' (Str r) ''HEARTBEAT_CHECK'' [] \<noteq> None) \<longrightarrow>
            (\<exists>tid probe.
               (tid, cs) \<in> set (truck_sockets st) \<and> \<not> startswith tid ''TEMP_'' \<and>
               build_message codec ''SERVER'' (Str tid) ''HEARTBEAT_CHECK'' [] = Some probe \<and>
               (send_heartbeat env = Sent \<longrightarrow>
                  serve codec cs addr temp (env # envs) lat st =
                  serve codec cs addr temp envs (clock_after env)
                    (st\<lparr>wire := wire st @ [(cs, probe)]\<rparr>)) \<and>
               (send_heartbeat env \<noteq> Sent \<longrightarrow>
                  serve codec cs addr temp (env # envs) lat st =
                  (Finished, cleanup cs addr st)))) \<and>
         ((\<forall>(k, s) \<in> set (truck_sockets st). s = cs \<longrightarrow> startswith k ''TEMP_'') \<longrightarrow>
            serve codec cs addr temp (env # envs) lat st = (Finished, cleanup cs addr st)) \<and>
         cs \<in> set (closed (cleanup cs addr st)) \<and>
         wire (cleanup cs addr st) = wire st"
proof -
  from iteration_timed_out [OF reached timeout, of codec cs temp st]
  obtain lat1 where it: "iteration codec cs temp env lat st = on_timeout codec cs env lat1 st"
    by blast
  have identified:
    "\<exists>tid probe.
       (tid, cs) \<in> set (truck_sockets st) \<and> \<not> startswith tid ''TEMP_'' \<and>
       build_message codec ''SERVER'' (Str tid) ''HEARTBEAT_CHECK'' [] = Some probe \<and>
       (send_heartbeat env = Sent \<longrightarrow>
          serve codec cs addr temp (env # envs) lat st =
          serve codec cs addr temp envs (clock_after env) (st\<lparr>wire := wire st @ [(cs, probe)]\<rparr>)) \<and>
       (send_heartbeat env \<noteq> Sent \<longrightarrow>
          serve codec cs addr temp (env # envs) lat st = (Finished, cleanup cs addr st))"
    if key: "(t, cs) \<in> set (truck_sockets st)" "\<not> startswith t ''TEMP_''"
      and nonempty: "([], cs) \<notin> set (truck_sockets st)"
      and builds: "\<forall>r. build_message codec ''SERVER'' (Str r) ''HEARTBEAT_CHECK'' [] \<noteq> None"
  proof -
    from registered_truck_id_found [OF key]
    obtain tid where tid: "registered_truck_id cs (truck_sockets st) = Some tid" by blast
    from registered_truck_id_Some [OF tid]
    have entry: "(tid, cs) \<in> set (truck_sockets st)" "\<not> startswith tid ''TEMP_''" by simp_all
    with nonempty have ne: "tid \<noteq> []" by auto
    from builds obtain probe
      where probe: "build_message codec ''SERVER'' (Str tid) ''HEARTBEAT_CHECK'' [] = Some probe"
      by (metis not_None_eq)
    have "serve codec cs addr temp (env # envs) lat st =
       (if send_heartbeat env = Sent
        then serve codec cs addr temp envs (clock_after env) (st\<lparr>wire := wire st @ [(cs, probe)]\<rparr>)
        else (Finished, cleanup cs addr st))"
      using it on_timeout_identified [OF tid ne probe, of env lat1] by simp
    with entry probe show ?thesis by auto
  qed
  have anonymous: "serve codec cs addr temp (env # envs) lat st = (Finished, cleanup cs addr st)"
    if "\<forall>(k, s) \<in> set (truck_sockets st). s = cs \<longrightarrow> startswith k ''TEMP_''"
    using it that on_timeout_anonymous [of cs st codec env lat1]
    by (simp add: registered_truck_id_None)
  have "cs \<in> set (closed (cleanup cs addr st)) \<and> wire (cleanup cs addr st) = wire st"
    by (simp add: cleanup_def)
  with identified anonymous show ?thesis by blast
qed

text \<open>
  The theorem at a read that times out on socket 2, in a registry that also holds the
  entries of another connection: registered as \<open>TRUCK_2\<close> with the probe written,
  registered as \<open>TRUCK_2\<close> with the probe failing, and registered as \<open>TEMP_5002\<close> only.
\<close>

theorem idle_timeout_policy_witness:
  "timed_out ((quiet 130 [])\<lparr>recv_header := RecvRaises SocketTimeout\<rparr>) \<and>
   (''TRUCK_2'', 2) \<in> set (truck_sockets
       (init_server\<lparr>truck_sockets := [(''TRUCK_1'', 1), (''TRUCK_2'', 2)]\<rparr>)) \<and>
   serve demo_codec 2 (''10.0.0.7'', 5002) ''TEMP_5002''
       [(quiet 130 [])\<lparr>recv_header := RecvRaises SocketTimeout\<rparr>] 10
       (init_server\<lparr>truck_sockets := [(''TRUCK_1'', 1), (''TRUCK_2'', 2)]\<rparr>)
     = (Serving, init_server\<lparr>truck_sockets := [(''TRUCK_1'', 1), (''TRUCK_2'', 2)],
                              wire := [(2, [16, 2, 3, 0])]\<rparr>) \<and>
   serve demo_codec 2 (''10.0.0.7'', 5002) ''TEMP_5002''
       [(quiet 130 [])\<lparr>recv_header := RecvRaises SocketTimeout,
                         send_heartbeat := SendRaises ConnectionResetError\<rparr>] 10
       (init_server\<lparr>truck_sockets := [(''TRUCK_1'', 1), (''TRUCK_2'', 2)]\<rparr>)
     = (Finished, init_server\<lparr>closed := [2], truck_sockets := [(''TRUCK_1'', 1)]\<rparr>) \<and>
   serve demo_codec 2 (''10.0.0.7'', 5002) ''TEMP_5002''
       [(quiet 130 [])\<lparr>recv_header := RecvRaises SocketTimeout\<rparr>] 10
       (init_server\<lparr>truck_sockets := [(''TRUCK_1'', 1), (''TEMP_5002'', 2)]\<rparr>)
     = (Finished, init_server\<lparr>closed := [2], truck_sockets := [(''TRUCK_1'', 1)]\<rparr>)"
  using idle_timeout_policy [where env = "(quiet 130 [])\<lparr>recv_header := RecvRaises SocketTimeout\<rparr>"
      and lat = 10 and t = "''TRUCK_2''" and cs = 2 and codec = demo_codec
      and st = "init_server\<lparr>truck_sockets := [(''TRUCK_1'', 1), (''TRUCK_2'', 2)]\<rparr>"
      and addr = "(''10.0.0.7'', 5002)" and temp = "''TEMP_5002''" and envs = "[]"]
    idle_timeout_policy [where env = "(quiet 130 [])\<lparr>recv_header := RecvRaises SocketTimeout,
                         send_heartbeat := SendRaises ConnectionResetError\<rparr>"
      and lat = 10 and t = "''TRUCK_2''" and cs = 2 and codec = demo_codec
      and st = "init_server\<lparr>truck_sockets := [(''TRUCK_1'', 1), (''TRUCK_2'', 2)]\<rparr>"
      and addr = "(''10.0.0.7'', 5002)" and temp = "''TEMP_5002''" and envs = "[]"]
    idle_timeout_policy [where env = "(quiet 130 [])\<lparr>recv_header := RecvRaises SocketTimeout\<rparr>"
      and lat = 10 and t = "''TRUCK_2''" and cs = 2 and codec = demo_codec
      and st = "init_server\<lparr>truck_sockets := [(''TRUCK_1'', 1), (''TEMP_5002'', 2)]\<rparr>"
      and addr = "(''10.0.0.7'', 5002)" and temp = "''TEMP_5002''" and envs = "[]"]
  by (simp add: demo_defs timed_out_def iteration_def read_frame_def on_timeout_def
        registered_truck_id_def startswith_def cleanup_def py_str_def)

text \<open>
  Against C6 as stated: the connection from port 5001 sends \<open>HELLO\<close> as
  \<open>TEMP_TRUCK\<close>. The first pass promotes it (the entry \<open>TEMP_5001\<close> is removed, the
  socket is registered under the sender) and answers with \<open>HEARTBEAT_ACK\<close>. When its
  next read times out, the handler finds no key that does not start with \<open>TEMP_\<close>: the
  loop ends and the socket is closed, and the acknowledgment is all that was ever written,
  no probe.
\<close>

theorem identified_as_temp_is_closed:
  "handle_client demo_codec_temp 1 (''10.0.0.7'', 5001) 0 [quiet 1 [9, 16, 1, 0]] init_server
     = (Serving, init_server\<lparr>truck_sockets := [(''TEMP_TRUCK'', 1)],
                              wire := [(1, [16, 0, 2, 0])]\<rparr>) \<and>
   handle_client demo_codec_temp 1 (''10.0.0.7'', 5001) 0
       [quiet 1 [9, 16, 1, 0], (quiet 130 [])\<lparr>recv_header := RecvRaises SocketTimeout\<rparr>]
       init_server
     = (Finished, init_server\<lparr>wire := [(1, [16, 0, 2, 0])], closed := [1]\<rparr>) \<and>
   ''TEMP_TRUCK'' \<noteq> ''TEMP_'' @ str_nat 5001"
  by (simp add: handler_defs demo_defs demo_codec_temp_def str_nat_5001)

text \<open>
  Claim C7. In a pass that reads a complete frame which decodes to a message whose
  command is \<open>HELLO\<close>, \<open>app.handle_message\<close> is not called, the pass ends with the loop
  going on, and when the \<open>HEARTBEAT_ACK\<close> message from \<open>SERVER\<close> to the message's
  sender is built and its write succeeds, it is what the pass writes to the socket.
\<close>

theorem hello_is_answered_not_forwarded:
  assumes reached: "\<not> (clock env - lat > 300 \<and> send_probe env \<noteq> Sent)"
    and frame: "frame_of env = Some raw"
    and parse: "parse_message codec raw = Some m" "mtype m \<noteq> Some ''INVALID''"
    and hello: "cmd m = Some ''HELLO''"
  shows "serve codec cs addr temp (env # envs) lat st =
           serve codec cs addr temp envs (clock env) (snd (dispatch codec cs temp env raw st)) \<and>
         handled (snd (dispatch codec cs temp env raw st)) = handled st \<and>
         (build_message codec ''SERVER'' (py_str (sender m)) ''HEARTBEAT_ACK'' [] = Some response \<and>
          send_ack env = Sent \<longrightarrow>
            wire (snd (dispatch codec cs temp env raw st)) = wire st @ [(cs, response)])"
proof -
  have "handled (snd (dispatch codec cs temp env raw st)) = handled st"
    using parse hello
    by (auto simp: dispatch_def Let_def split: option.splits send_result.splits)
  moreover have "wire (snd (dispatch codec cs temp env raw st)) = wire st @ [(cs, response)]"
    if "build_message codec ''SERVER'' (py_str (sender m)) ''HEARTBEAT_ACK'' [] = Some response"
      "send_ack env = Sent"
    using parse hello that
    by (auto simp: dispatch_def Let_def split: option.splits)
  ultimately show ?thesis
    using serve_frame [OF reached frame, of codec cs addr temp envs st] by simp
qed

text \<open>The theorem at the first \<open>HELLO\<close> of \<open>TRUCK_1\<close> on the connection from port 5001.\<close>

theorem hello_is_answered_not_forwarded_witness:
  "frame_of (quiet 1 [1, 16, 1, 0]) = Some [1, 16, 1, 0] \<and>
   serve demo_codec 1 (''10.0.0.7'', 5001) ''TEMP_5001'' [quiet 1 [1, 16, 1, 0]] 0
       (init_server\<lparr>truck_sockets := [(''TEMP_5001'', 1)]\<rparr>)
     = (Serving, init_server\<lparr>truck_sockets := [(''TRUCK_1'', 1)], wire := [(1, [16, 1, 2, 0])]\<rparr>) \<and>
   handled (snd (dispatch demo_codec 1 ''TEMP_5001'' (quiet 1 [1, 16, 1, 0]) [1, 16, 1, 0]
       (init_server\<lparr>truck_sockets := [(''TEMP_5001'', 1)]\<rparr>))) = []"
  using hello_is_answered_not_forwarded [of "quiet 1 [1, 16, 1, 0]" 0 "[1, 16, 1, 0]" demo_codec
      "\<lparr>mtype = None, sender = Some ''TRUCK_1'', cmd = Some ''HELLO'', payload = []\<rparr>"
      1 "(''10.0.0.7'', 5001)" "''TEMP_5001''" "[]"
      "init_server\<lparr>truck_sockets := [(''TEMP_5001'', 1)]\<rparr>" "[16, 1, 2, 0]"]
  by (simp add: demo_defs frame_of_def dispatch_def register_truck_def py_str_def)

text \<open>
  Claim C10. In a pass that reads a complete frame which decodes to \<open>HELLO\<close>, when
  building the \<open>HEARTBEAT_ACK\<close> reply or writing it raises, the handler goes on with its
  next pass: nothing is closed, nothing was written, and a socket that was registered is
  still registered.
\<close>

theorem failed_ack_keeps_connection:
  assumes reached: "\<not> (clock env - lat > 300 \<and> send_probe env \<noteq> Sent)"
    and frame: "frame_of env = Some raw"
    and parse: "parse_message codec raw = Some m" "mtype m \<noteq> Some ''INVALID''"
    and hello: "cmd m = Some ''HELLO''"
    and fails: "build_message codec ''SERVER'' (py_str (sender m)) ''HEARTBEAT_ACK'' [] = None \<or>
                send_ack env = SendRaises e"
  shows "serve codec cs addr temp (env # envs) lat st =
           serve codec cs addr temp envs (clock env) (snd (dispatch codec cs temp env raw st)) \<and>
         closed (snd (dispatch codec cs temp env raw st)) = closed st \<and>
         wire (snd (dispatch codec cs temp env raw st)) = wire st \<and>
         (cs \<in> snd ` set (truck_sockets st) \<longrightarrow>
            cs \<in> snd ` set (truck_sockets (snd (dispatch codec cs temp env raw st))))"
proof -
  have w: "wire (snd (dispatch codec cs temp env raw st)) = wire st"
    using parse hello fails
    by (auto simp: dispatch_def Let_def split: option.splits send_result.splits)
  have r: "cs \<in> snd ` set (truck_sockets (snd (dispatch codec cs temp env raw st)))"
    if "cs \<in> snd ` set (truck_sockets st)"
  proof (cases "truthy (sender m)")
    case True
    then obtain tid where tid: "sender m = Some tid" "tid \<noteq> []"
      by (cases "sender m") auto
    have "map_of (register_truck cs temp tid (truck_sockets st)) tid = Some cs"
      by (simp add: register_truck_def AList.update_conv')
    then have "(tid, cs) \<in> set (register_truck cs temp tid (truck_sockets st))"
      by (rule map_of_SomeD)
    then show ?thesis
      using dispatch_truck_sockets [OF parse tid, of cs temp env st] by force
  next
    case False
    then have "truck_sockets (snd (dispatch codec cs temp env raw st)) = truck_sockets st"
      using parse
      by (cases "sender m") (auto simp: dispatch_def Let_def split: option.splits send_result.splits)
    with that show ?thesis by simp
  qed
  show ?thesis
    using serve_frame [OF reached frame, of codec cs addr temp envs st] w r
    by (simp add: dispatch_closed)
qed

text \<open>The theorem at a \<open>HELLO\<close> of \<open>TRUCK_1\<close> whose reply meets a reset connection.\<close>

theorem failed_ack_keeps_connection_witness:
  "serve demo_codec 1 (''10.0.0.7'', 5001) ''TEMP_5001''
       [(quiet 1 [1, 16, 1, 0])\<lparr>send_ack := SendRaises ConnectionResetError\<rparr>] 0
       (init_server\<lparr>truck_sockets := [(''TEMP_5001'', 1)]\<rparr>)
     = (Serving, init_server\<lparr>truck_sockets := [(''TRUCK_1'', 1)]\<rparr>) \<and>
   closed (snd (dispatch demo_codec 1 ''TEMP_5001''
       ((quiet 1 [1, 16, 1, 0])\<lparr>send_ack := SendRaises ConnectionResetError\<rparr>) [1, 16, 1, 0]
       (init_server\<lparr>truck_sockets := [(''TEMP_5001'', 1)]\<rparr>))) = [] \<and>
   1 \<in> snd ` set (truck_sockets (snd (dispatch demo_codec 1 ''TEMP_5001''
       ((quiet 1 [1, 16, 1, 0])\<lparr>send_ack := SendRaises ConnectionResetError\<rparr>) [1, 16, 1, 0]
       (init_server\<lparr>truck_sockets := [(''TEMP_5001'', 1)]\<rparr>))))"
  using failed_ack_keeps_connection [of "(quiet 1 [1, 16, 1, 0])\<lparr>send_ack := SendRaises ConnectionResetError\<rparr>"
      0 "[1, 16, 1, 0]" demo_codec
      "\<lparr>mtype = None, sender = Some ''TRUCK_1'', cmd = Some ''HELLO'', payload = []\<rparr>"
      ConnectionResetError 1 "(''10.0.0.7'', 5001)" "''TEMP_5001''" "[]"
      "init_server\<lparr>truck_sockets := [(''TEMP_5001'', 1)]\<rparr>"]
  by (simp add: demo_defs frame_of_def dispatch_def register_truck_def py_str_def)

subsection \<open>Starting and stopping\<close>

lemma fold_close_client_socket:
  "\<exists>cs'. fold (close_client_socket ok) cl st = st\<lparr>closed := closed st @ cs'\<rparr>"
proof (induction cl arbitrary: st)
  case Nil
  show ?case by (rule exI [of _ "[]"]) simp
next
  case (Cons item cl)
  have unfold: "fold (close_client_socket ok) (item # cl) st =
      fold (close_client_socket ok) cl (close_client_socket ok item st)"
    by simp
  show ?case
  proof (cases "sock_shutdown ok (snd item)")
    case (Inl e)
    then have "close_client_socket ok item st = st"
      by (simp add: close_client_socket_def)
    with unfold Cons [of st] show ?thesis by simp
  next
    case (Inr s)
    then have step: "close_client_socket ok item st = st\<lparr>closed := closed st @ [s]\<rparr>"
      by (simp add: close_client_socket_def)
    from Cons [of "st\<lparr>closed := closed st @ [s]\<rparr>"] obtain cs'
      where "fold (close_client_socket ok) cl (st\<lparr>closed := closed st @ [s]\<rparr>) =
               st\<lparr>closed := closed st @ s # cs'\<rparr>"
      by auto
    with unfold step
    have "fold (close_client_socket ok) (item # cl) st = st\<lparr>closed := closed st @ s # cs'\<rparr>"
      by simp
    then show ?thesis by (rule exI [of _ "s # cs'"])
  qed
qed

lemma safe_stop_running:
  assumes "running st"
  shows "\<exists>cs'. safe_stop ok st =
           Inr (st\<lparr>running := False, clients := [], truck_sockets := [],
                   closed := closed st @ cs' @ (case server_sock st of None \<Rightarrow> [] | Some s \<Rightarrow> [s])\<rparr>)"
proof -
  obtain cs' where f: "fold (close_client_socket ok) (clients st) (st\<lparr>running := False\<rparr>) =
      st\<lparr>running := False, closed := closed st @ cs'\<rparr>"
    using fold_close_client_socket [of ok "clients st" "st\<lparr>running := False\<rparr>"] by auto
  show ?thesis
    by (rule exI [of _ cs']) (use assms f in \<open>simp add: safe_stop_def split: option.splits\<close>)
qed

lemma safe_stop_stopped: "\<not> running st \<Longrightarrow> safe_stop ok st = Inr st"
  by (simp add: safe_stop_def)

text \<open>
  Claim C9. \<open>safe_stop\<close> and \<open>stop\<close> return without an exception from every state,
  and a second call (whatever the sockets then do) returns without an exception and
  leaves the server exactly as the first call left it. After the first call the running
  flag is off; when the server was running, \<open>clients\<close> and the registry are empty and
  the listening socket, if there is one, has been closed. \<open>stop\<close> on a server that was
  never started returns at once and changes nothing.
\<close>

theorem shutdown_is_idempotent:
  "(\<exists>st1. safe_stop ok st = Inr st1 \<and> safe_stop ok' st1 = Inr st1 \<and> \<not> running st1 \<and>
      (running st \<longrightarrow> clients st1 = [] \<and> truck_sockets st1 = [] \<and>
         (\<forall>ls. server_sock st = Some ls \<longrightarrow> ls \<in> set (closed st1)))) \<and>
   (\<exists>st1. stop ok st = Inr st1 \<and> stop ok' st1 = Inr st1 \<and> \<not> running st1 \<and>
      (running st \<longrightarrow> clients st1 = [] \<and> truck_sockets st1 = [] \<and>
         (\<forall>ls. server_sock st = Some ls \<longrightarrow> ls \<in> set (closed st1)))) \<and>
   stop ok init_server = Inr init_server"
proof (cases "running st")
  case True
  then obtain cs' where s: "safe_stop ok st =
      Inr (st\<lparr>running := False, clients := [], truck_sockets := [],
              closed := closed st @ cs' @ (case server_sock st of None \<Rightarrow> [] | Some s \<Rightarrow> [s])\<rparr>)"
    using safe_stop_running [of st ok] by blast
  let ?st1 = "st\<lparr>running := False, clients := [], truck_sockets := [],
              closed := closed st @ cs' @ (case server_sock st of None \<Rightarrow> [] | Some s \<Rightarrow> [s])\<rparr>"
  have again: "safe_stop ok' ?st1 = Inr ?st1"
    by (rule safe_stop_stopped) simp
  have stop1: "stop ok st = Inr ?st1"
    using True s by (simp add: stop_def)
  have stop2: "stop ok' ?st1 = Inr ?st1"
    using again by (simp add: stop_def)
  have props: "\<not> running ?st1 \<and> clients ?st1 = [] \<and> truck_sockets ?st1 = [] \<and>
      (\<forall>ls. server_sock st = Some ls \<longrightarrow> ls \<in> set (closed ?st1))"
    by simp
  show ?thesis
    using s again stop1 stop2 props by (simp add: stop_def init_server_def)
next
  case False
  then have s: "safe_stop ok st = Inr st" "safe_stop ok' st = Inr st"
    by (simp_all add: safe_stop_stopped)
  with False have "stop ok st = Inr st" "stop ok' st = Inr st"
    by (simp_all add: stop_def)
  with s False show ?thesis
    by (simp add: stop_def init_server_def)
qed

text \<open>
  The theorem at a running server with two connections, one of them registered, whose
  second client socket fails to shut down.
\<close>

theorem shutdown_is_idempotent_witness:
  "safe_stop (\<lambda>s. s \<noteq> 2) (two_accepted\<lparr>truck_sockets := [(''TRUCK_1'', 1)]\<rparr>) =
     Inr (two_accepted\<lparr>running := False, clients := [], closed := [1, 10]\<rparr>) \<and>
   safe_stop (\<lambda>s. True) (two_accepted\<lparr>running := False, clients := [], closed := [1, 10]\<rparr>) =
     Inr (two_accepted\<lparr>running := False, clients := [], closed := [1, 10]\<rparr>) \<and>
   stop (\<lambda>s. s \<noteq> 2) (two_accepted\<lparr>truck_sockets := [(''TRUCK_1'', 1)]\<rparr>) =
     Inr (two_accepted\<lparr>running := False, clients := [], closed := [1, 10]\<rparr>) \<and>
   stop (\<lambda>s. True) (two_accepted\<lparr>running := False, clients := [], closed := [1, 10]\<rparr>) =
     Inr (two_accepted\<lparr>running := False, clients := [], closed := [1, 10]\<rparr>) \<and>
   truck_sockets (two_accepted\<lparr>running := False, clients := [], closed := [1, 10]\<rparr>) = [] \<and>
   stop (\<lambda>s. True) init_server = Inr init_server"
  using shutdown_is_idempotent [of "\<lambda>s. s \<noteq> 2" "two_accepted\<lparr>truck_sockets := [(''TRUCK_1'', 1)]\<rparr>"
      "\<lambda>s. True"]
  by (simp add: two_accepted_def init_server_def safe_stop_def stop_def close_client_socket_def
        sock_shutdown_def)

lemma start_after_failed_bind:
  assumes "start_try env (st\<lparr>running := True\<rparr>) = Some (Some e, st1)"
    and "running st1"
  shows "\<exists>st'. start env st = Some (Inr st') \<and> \<not> running st' \<and> bound st' = bound st1 \<and>
           slept st' = slept st1 \<and> listening st' = listening st1"
proof -
  obtain cs' where "safe_stop (stop_shutdown_ok env) st1 =
      Inr (st1\<lparr>running := False, clients := [], truck_sockets := [],
              closed := closed st1 @ cs' @ (case server_sock st1 of None \<Rightarrow> [] | Some s \<Rightarrow> [s])\<rparr>)"
    using safe_stop_running [OF assms(2), of "stop_shutdown_ok env"] by blast
  with assms show ?thesis
    by (simp add: start_def stop_def)
qed

text \<open>
  Claim C8, as the code has it. When the first \<open>bind\<close> fails with an \<open>OSError\<close> whose
  text contains "Address already in use", \<open>start\<close> closes that socket, sleeps 5 seconds
  and binds once more with a new socket; when that succeeds it listens on the new socket
  and accepts. When the second \<open>bind\<close> fails too, or the first fails for any other
  reason, nothing more is tried (no further sleep, bind or listen): the exception is
  caught inside \<open>start\<close>, which runs \<open>stop\<close> and returns to its caller without
  raising, the server not running.
\<close>

theorem bind_retry_policy:
  "(bind1 env = Some e \<and> address_in_use e \<and> bind2 env = None \<longrightarrow>
      start_try env st =
        listen_and_accept (sock2 env) (accepts env)
          (st\<lparr>closed := closed st @ [sock1 env],
              slept := slept st @ [5],
              server_sock := Some (sock2 env),
              bound := bound st @ [sock1 env, sock2 env]\<rparr>)) \<and>
   (bind1 env = Some e \<and> address_in_use e \<and> bind2 env = Some e' \<longrightarrow>
      (\<exists>st'. start env st = Some (Inr st') \<and> \<not> running st' \<and>
         bound st' = bound st @ [sock1 env, sock2 env] \<and>
         slept st' = slept st @ [5] \<and> listening st' = listening st)) \<and>
   (bind1 env = Some e \<and> \<not> address_in_use e \<longrightarrow>
      (\<exists>st'. start env st = Some (Inr st') \<and> \<not> running st' \<and>
         bound st' = bound st @ [sock1 env] \<and>
         slept st' = slept st \<and> listening st' = listening st))"
proof (intro conjI impI)
  assume "bind1 env = Some e \<and> address_in_use e \<and> bind2 env = None"
  then show "start_try env st =
        listen_and_accept (sock2 env) (accepts env)
          (st\<lparr>closed := closed st @ [sock1 env],
              slept := slept st @ [5],
              server_sock := Some (sock2 env),
              bound := bound st @ [sock1 env, sock2 env]\<rparr>)"
    by (simp add: start_try_def)
next
  assume a: "bind1 env = Some e \<and> address_in_use e \<and> bind2 env = Some e'"
  let ?st2 = "st\<lparr>running := True, closed := closed st @ [sock1 env],
              slept := slept st @ [5], server_sock := Some (sock2 env),
              bound := bound st @ [sock1 env, sock2 env]\<rparr>"
  have "start_try env (st\<lparr>running := True\<rparr>) = Some (Some e', ?st2)"
    using a by (simp add: start_try_def)
  from start_after_failed_bind [OF this]
  show "\<exists>st'. start env st = Some (Inr st') \<and> \<not> running st' \<and>
         bound st' = bound st @ [sock1 env, sock2 env] \<and>
         slept st' = slept st @ [5] \<and> listening st' = listening st"
    by simp
next
  assume a: "bind1 env = Some e \<and> \<not> address_in_use e"
  let ?st1 = "st\<lparr>running := True, server_sock := Some (sock1 env),
              bound := bound st @ [sock1 env]\<rparr>"
  have "start_try env (st\<lparr>running := True\<rparr>) = Some (Some e, ?st1)"
    using a by (simp add: start_try_def)
  from start_after_failed_bind [OF this]
  show "\<exists>st'. start env st = Some (Inr st') \<and> \<not> running st' \<and>
         bound st' = bound st @ [sock1 env] \<and>
         slept st' = slept st \<and> listening st' = listening st"
    by simp
qed

text \<open>
  The theorem at a port that is in use at the first \<open>bind\<close> and free at the second
  (one connection is accepted, then \<open>accept\<close> fails), at a port in use both times, and at
  a \<open>bind\<close> that is refused for lack of permission.
\<close>

theorem bind_retry_policy_witness:
  "address_in_use (OSError ''[Errno 98] Address already in use'') \<and>
   start \<lparr>sock1 = 10, sock2 = 11, bind1 = Some (OSError ''[Errno 98] Address already in use''),
          bind2 = None,
          accepts = [Accepted 1 ''10.0.0.7'' 5001, AcceptRaises (OSError ''closed'')],
          stop_shutdown_ok = (\<lambda>s. True)\<rparr> init_server
     = Some (Inr (init_server\<lparr>server_sock := Some 11, closed := [10, 1, 11], slept := [5],
                    bound := [10, 11], listening := [11],
                    spawned := [(1, ''10.0.0.7'', 5001)]\<rparr>)) \<and>
   start \<lparr>sock1 = 10, sock2 = 11, bind1 = Some (OSError ''[Errno 98] Address already in use''),
          bind2 = Some (OSError ''[Errno 98] Address already in use''), accepts = [],
          stop_shutdown_ok = (\<lambda>s. True)\<rparr> init_server
     = Some (Inr (init_server\<lparr>server_sock := Some 11, closed := [10, 11], slept := [5],
                    bound := [10, 11]\<rparr>)) \<and>
   \<not> address_in_use (OSError ''[Errno 13] Permission denied'') \<and>
   start \<lparr>sock1 = 10, sock2 = 11, bind1 = Some (OSError ''[Errno 13] Permission denied''),
          bind2 = None, accepts = [], stop_shutdown_ok = (\<lambda>s. True)\<rparr> init_server
     = Some (Inr (init_server\<lparr>server_sock := Some 10, closed := [10], bound := [10]\<rparr>))"
  using bind_retry_policy [where env =
      "\<lparr>sock1 = 10, sock2 = 11, bind1 = Some (OSError ''[Errno 98] Address already in use''),
          bind2 = None,
          accepts = [Accepted 1 ''10.0.0.7'' 5001, AcceptRaises (OSError ''closed'')],
          stop_shutdown_ok = (\<lambda>s. True)\<rparr>"
      and e = "OSError ''[Errno 98] Address already in use''"
      and st = "init_server\<lparr>running := True\<rparr>"]
    bind_retry_policy [where env =
      "\<lparr>sock1 = 10, sock2 = 11, bind1 = Some (OSError ''[Errno 98] Address already in use''),
          bind2 = Some (OSError ''[Errno 98] Address already in use''), accepts = [],
          stop_shutdown_ok = (\<lambda>s. True)\<rparr>"
      and e = "OSError ''[Errno 98] Address already in use''"
      and e' = "OSError ''[Errno 98] Address already in use''" and st = init_server]
    bind_retry_policy [where env =
      "\<lparr>sock1 = 10, sock2 = 11, bind1 = Some (OSError ''[Errno 13] Permission denied''),
          bind2 = None, accepts = [], stop_shutdown_ok = (\<lambda>s. True)\<rparr>"
      and e = "OSError ''[Errno 13] Permission denied''" and st = init_server]
  by (simp add: address_in_use_def is_os_error_def startswith_def start_def start_try_def
        listen_and_accept_def stop_def safe_stop_def close_client_socket_def sock_shutdown_def
        init_server_def)

text \<open>
  Against C8 as stated: a first \<open>bind\<close> refused with "Permission denied" raises inside
  \<open>start\<close> (it leaves the body of the \<open>try\<close>), yet \<open>start\<close> itself returns
  normally: its value is a server state, not that exception.
\<close>

theorem bind_failure_does_not_propagate:
  "start_try \<lparr>sock1 = 10, sock2 = 11, bind1 = Some (OSError ''[Errno 13] Permission denied''),
          bind2 = None, accepts = [], stop_shutdown_ok = (\<lambda>s. True)\<rparr>
       (init_server\<lparr>running := True\<rparr>)
     = Some (Some (OSError ''[Errno 13] Permission denied''),
             init_server\<lparr>running := True, server_sock := Some 10, bound := [10]\<rparr>) \<and>
   start \<lparr>sock1 = 10, sock2 = 11, bind1 = Some (OSError ''[Errno 13] Permission denied''),
          bind2 = None, accepts = [], stop_shutdown_ok = (\<lambda>s. True)\<rparr> init_server
     = Some (Inr (init_server\<lparr>server_sock := Some 10, closed := [10], bound := [10]\<rparr>)) \<and>
   start \<lparr>sock1 = 10, sock2 = 11, bind1 = Some (OSError ''[Errno 13] Permission denied''),
          bind2 = None, accepts = [], stop_shutdown_ok = (\<lambda>s. True)\<rparr> init_server
     \<noteq> Some (Inl (OSError ''[Errno 13] Permission denied''))"
  by (simp add: address_in_use_def startswith_def start_def start_try_def
        stop_def safe_stop_def init_server_def)

end
